theory Spec2Isabelle
  imports Main "HOL-Library.AList"
begin

section \<open>The notebook: values, exceptions and effects\<close>

text \<open>
  The two functions of the notebook, \<^verbatim>\<open>run_parser\<close> and \<^verbatim>\<open>process_example\<close>, read JSON
  files, print, and call into the package \<^verbatim>\<open>mgsmt\<close>. JSON values are a datatype, a
  Python dict is an association list (insertion ordered, as in Python), an exception is
  the left summand of the result, and what a call does to the outside (printing, opening
  a file, calling the package) is recorded as a list of events in the order it happens.
\<close>

datatype json =
    JNull
  | JBool bool
  | JNum int
  | JStr string
  | JArr "json list"
  | JObj "(string \<times> json) list"

type_synonym dict = "(string \<times> json) list"

datatype py_error =
    AssertionError
  | FileNotFoundError string
  | KeyError string
  | TypeError
  | IndexError
  | PackageError string

text \<open>
  What a Python call evaluates to: \<^verbatim>\<open>None\<close>, or a value of the type the package's
  \<^verbatim>\<open>run\<close> returns.
\<close>

datatype 'r pyval = PyNone | PyResult 'r

datatype event =
    Printed string
  | FileOpened string
  | ConfigurationsConstructed json json json "json list"
  | ExperimentInitialised dict dict
  | ExperimentRun bool bool bool

text \<open>
  The package \<^verbatim>\<open>mgsmt.experiments.parserexperiment\<close> is imported by the notebook; the three
  entry points the notebook calls are parameters of the model. Each may raise; \<^verbatim>\<open>run\<close>
  is called with the keywords \<^verbatim>\<open>include_LF_constraints\<close>, \<^verbatim>\<open>include_PF_constraints\<close>,
  \<^verbatim>\<open>extract_all_parses\<close>, in this order.
\<close>

record ('pe, 'r) package =
  construct_parser_experiment_configurations ::
    "json \<Rightarrow> json \<Rightarrow> json \<Rightarrow> json list \<Rightarrow> py_error + dict list"
  ParserExperiment :: "dict \<Rightarrow> dict \<Rightarrow> py_error + 'pe"
  run :: "'pe \<Rightarrow> bool \<Rightarrow> bool \<Rightarrow> bool \<Rightarrow> py_error + 'r"

text \<open>The dict literal passed as \<^verbatim>\<open>other_args\<close>.\<close>

definition other_args :: "int \<Rightarrow> int \<Rightarrow> int \<Rightarrow> dict" where
  "other_args max_num_empty_lexical_items max_num_movements max_num_head_movements =
     [(''display.jupyter-widgets'', JBool True),
      (''max_num_empty_lexical_items'', JNum max_num_empty_lexical_items),
      (''max_num_movements'', JNum max_num_movements),
      (''max_num_head_movements'', JNum max_num_head_movements)]"

text \<open>
  \<^verbatim>\<open>run_parser\<close>: the body has no \<^verbatim>\<open>return\<close> statement, so a call that raises nothing
  evaluates to \<^verbatim>\<open>None\<close>; what \<^verbatim>\<open>pe.run\<close> returns is dropped.
  \<^verbatim>\<open>pe_configs[0]\<close> raises IndexError on the empty list.
\<close>

definition run_parser ::
  "('pe, 'r) package \<Rightarrow> json \<Rightarrow> json \<Rightarrow> json \<Rightarrow> json list \<Rightarrow> bool \<Rightarrow> bool \<Rightarrow> bool \<Rightarrow>
   int \<Rightarrow> int \<Rightarrow> int \<Rightarrow> event list \<times> (py_error + 'r pyval)" where
  "run_parser P inferred_lexicon experiment_params evaluation_corpus extra_lexical_items
     include_LF_constraints include_PF_constraints extract_all_parses
     max_num_empty_lexical_items max_num_movements max_num_head_movements =
   (let ev1 = [ConfigurationsConstructed inferred_lexicon experiment_params
                 evaluation_corpus extra_lexical_items] in
    case construct_parser_experiment_configurations P inferred_lexicon experiment_params
           evaluation_corpus extra_lexical_items of
      Inl e \<Rightarrow> (ev1, Inl e)
    | Inr pe_configs \<Rightarrow>
       (case pe_configs of
          [] \<Rightarrow> (ev1, Inl IndexError)
        | config0 # _ \<Rightarrow>
           (let config = AList.update ''evaluate_intermediate_steps'' (JBool False) config0;
                args = other_args max_num_empty_lexical_items max_num_movements
                         max_num_head_movements;
                ev2 = ev1 @ [ExperimentInitialised config args] in
            case ParserExperiment P config args of
              Inl e \<Rightarrow> (ev2, Inl e)
            | Inr pe \<Rightarrow>
               (let ev3 = ev2 @ [ExperimentRun include_LF_constraints include_PF_constraints
                                   extract_all_parses] in
                case run P pe include_LF_constraints include_PF_constraints
                       extract_all_parses of
                  Inl e \<Rightarrow> (ev3, Inl e)
                | Inr _ \<Rightarrow> (ev3, Inr PyNone)))))"

text \<open>Python's \<^verbatim>\<open>s.startswith(p)\<close> and \<^verbatim>\<open>p in s\<close> on strings (a substring test).\<close>

fun startswith :: "string \<Rightarrow> string \<Rightarrow> bool" where
  "startswith s [] = True"
| "startswith [] (p # ps) = False"
| "startswith (c # s) (p # ps) = (c = p \<and> startswith s ps)"

fun str_contains :: "string \<Rightarrow> string \<Rightarrow> bool" where
  "str_contains [] p = (p = [])"
| "str_contains (c # s) p = (startswith (c # s) p \<or> str_contains s p)"

text \<open>\<^verbatim>\<open>open(path, 'r')\<close> followed by \<^verbatim>\<open>json.load\<close>, on a file system of parsed files.\<close>

definition load_json :: "(string \<rightharpoonup> json) \<Rightarrow> string \<Rightarrow> py_error + json" where
  "load_json files path =
     (case files path of None \<Rightarrow> Inl (FileNotFoundError path) | Some v \<Rightarrow> Inr v)"

text \<open>\<^verbatim>\<open>d[key]\<close> with a string key: a dict looks the key up, anything else raises TypeError.\<close>

definition subscript_key :: "json \<Rightarrow> string \<Rightarrow> py_error + json" where
  "subscript_key v key =
     (case v of
        JObj d \<Rightarrow> (case map_of d key of None \<Rightarrow> Inl (KeyError key) | Some x \<Rightarrow> Inr x)
      | _ \<Rightarrow> Inl TypeError)"

text \<open>
  \<^verbatim>\<open>v[i:i+1]\<close> for \<open>0 \<le> i\<close>, the only indices that reach the slice: a list or a string
  gives the part of length at most one starting at \<open>i\<close>, anything else raises TypeError.
\<close>

definition slice1 :: "json \<Rightarrow> int \<Rightarrow> py_error + json" where
  "slice1 v i =
     (case v of
        JArr xs \<Rightarrow> Inr (JArr (take 1 (drop (nat i) xs)))
      | JStr s \<Rightarrow> Inr (JStr (take 1 (drop (nat i) s)))
      | _ \<Rightarrow> Inl TypeError)"

definition banner :: "string \<Rightarrow> string" where
  "banner example_code =
     replicate 29 (CHR ''-'') @ '' Processing Example '' @ example_code @ '' ''
       @ replicate 29 (CHR ''-'')"

definition lexicon_path :: "string \<Rightarrow> string" where
  "lexicon_path example_code = ''experiment-data/lexicon-'' @ example_code @ ''.json''"

definition corpus_path :: string where
  "corpus_path = ''experiment-data/corpus-of-interface-conditions.json''"

text \<open>
  \<^verbatim>\<open>process_example\<close>. The two \<^verbatim>\<open>assert\<close> statements come first, in the order of the
  source; the second is Python's \<^verbatim>\<open>in\<close> on two strings. \<^verbatim>\<open>run_parser\<close> is called with
  \<^verbatim>\<open>extra_lexical_items=[]\<close> and both constraint toggles at their default \<^verbatim>\<open>True\<close>.
\<close>

definition process_example ::
  "('pe, 'r) package \<Rightarrow> (string \<rightharpoonup> json) \<Rightarrow> int \<Rightarrow> string \<Rightarrow> bool \<Rightarrow> int \<Rightarrow> int \<Rightarrow> int \<Rightarrow>
   event list \<times> (py_error + 'r pyval)" where
  "process_example P files example_idx example_code extract_all_parses
     max_num_empty_lexical_items max_num_movements max_num_head_movements =
   (if \<not> (0 \<le> example_idx \<and> example_idx < 8) then ([], Inl AssertionError)
    else if \<not> str_contains ''ABCDEFGH'' example_code then ([], Inl AssertionError)
    else
     (let ev1 = [Printed (banner example_code), FileOpened (lexicon_path example_code)] in
      case load_json files (lexicon_path example_code) of
        Inl e \<Rightarrow> (ev1, Inl e)
      | Inr lexicon \<Rightarrow>
         (let ev2 = ev1 @ [FileOpened corpus_path] in
          case load_json files corpus_path of
            Inl e \<Rightarrow> (ev2, Inl e)
          | Inr experiment_params \<Rightarrow>
             (case subscript_key experiment_params ''input_sequence'' of
                Inl e \<Rightarrow> (ev2, Inl e)
              | Inr input_sequence \<Rightarrow>
                 (case slice1 input_sequence example_idx of
                    Inl e \<Rightarrow> (ev2, Inl e)
                  | Inr evaluation_corpus \<Rightarrow>
                     (let (ev3, res) =
                            run_parser P lexicon experiment_params evaluation_corpus []
                              True True extract_all_parses
                              max_num_empty_lexical_items max_num_movements
                              max_num_head_movements
                      in (ev2 @ ev3, res)))))))"

text \<open>
  A package and a file system for closed examples. The package constructs one
  configuration when the experiment parameters are a JSON object and none otherwise, and
  its \<^verbatim>\<open>run\<close> returns a list with one derivation, printed as a string.
\<close>

definition example_package :: "(unit, string list) package" where
  "example_package =
     \<lparr>construct_parser_experiment_configurations =
        (\<lambda>lexicon params corpus extras.
           case params of
             JObj _ \<Rightarrow> Inr [[(''evaluate_intermediate_steps'', JBool True)]]
           | _ \<Rightarrow> Inr []),
      ParserExperiment = (\<lambda>config args. Inr ()),
      run = (\<lambda>pe lf pf ap. Inr [''derivation''])\<rparr>"

definition example_files :: "string \<rightharpoonup> json" where
  "example_files =
     [''experiment-data/lexicon-A.json'' \<mapsto> JObj [],
      ''experiment-data/lexicon-G.json'' \<mapsto> JObj [],
      corpus_path \<mapsto>
        JObj [(''input_sequence'',
               JArr [JStr ''I1'', JStr ''I2'', JStr ''I3'', JStr ''I4'', JStr ''I5'',
                     JStr ''I6'', JStr ''I7'', JStr ''I8''])]]"

section \<open>The solver driver\<close>

text \<open>
  Modelled from the spec: the Solver Driver of the package \<^verbatim>\<open>mgsmt\<close> (\<^verbatim>\<open>solveOne\<close>,
  \<^verbatim>\<open>solveAll\<close> and the choice made by \<^verbatim>\<open>extract_all_parses\<close>), whose code is not among
  the sources; the notebook only passes the toggle on. The definitions follow section
  4.4 of the specification.

  A formula is conjunctive: a list of clauses, each a predicate on models. The
  satisfiability backend is outside the package and is a parameter; it answers
  \<open>SAT\<close> with a model, \<open>UNSAT\<close> or \<open>TIMEOUT\<close>.
\<close>

datatype 'm solve_result = SAT 'm | UNSAT | TIMEOUT

type_synonym 'm formula = "('m \<Rightarrow> bool) list"

type_synonym 'm backend = "'m formula \<Rightarrow> 'm solve_result"

definition satisfies :: "'m \<Rightarrow> 'm formula \<Rightarrow> bool" where
  "satisfies model formula = list_all (\<lambda>clause. clause model) formula"

text \<open>
  Modelled from the spec: what is taken for granted of the backend, that a model it
  answers satisfies the formula it was given.
\<close>

definition sound :: "'m backend \<Rightarrow> bool" where
  "sound backend = (\<forall>formula model. backend formula = SAT model \<longrightarrow> satisfies model formula)"

text \<open>Modelled from the spec: \<^verbatim>\<open>solveOne(formula)\<close> submits the formula to the backend.\<close>

definition solveOne :: "'m backend \<Rightarrow> 'm formula \<Rightarrow> 'm solve_result" where
  "solveOne backend formula = backend formula"

text \<open>
  Modelled from the spec: the clause added after a model is found. It forbids the
  combination of values the found model gives to the variables that determine the
  derivation, that is, it excludes every model with the same canonical projection.
\<close>

definition blocking_clause :: "('m \<Rightarrow> 'k) \<Rightarrow> 'm \<Rightarrow> 'm \<Rightarrow> bool" where
  "blocking_clause canonical_projection found =
     (\<lambda>candidate. canonical_projection candidate \<noteq> canonical_projection found)"

text \<open>
  Modelled from the spec: \<^verbatim>\<open>solveAll(formula, maxCount)\<close>. Solve; on \<open>SAT\<close> yield the
  model, add its blocking clause and solve again; stop on \<open>UNSAT\<close>, on a timeout, or when
  \<open>maxCount\<close> models have been yielded. The lazy sequence is the list of models in the
  order they are yielded.
\<close>

fun solveAll :: "'m backend \<Rightarrow> ('m \<Rightarrow> 'k) \<Rightarrow> 'm formula \<Rightarrow> nat \<Rightarrow> 'm list" where
  "solveAll backend canonical_projection formula 0 = []"
| "solveAll backend canonical_projection formula (Suc maxCount) =
     (case solveOne backend formula of
        SAT model \<Rightarrow>
          model # solveAll backend canonical_projection
                    (formula @ [blocking_clause canonical_projection model]) maxCount
      | UNSAT \<Rightarrow> []
      | TIMEOUT \<Rightarrow> [])"

text \<open>
  Modelled from the spec: the models handed to the Derivation Extractor. With
  \<^verbatim>\<open>extract_all_parses\<close> the enumeration, without it the model of one \<^verbatim>\<open>solveOne\<close>, if
  there is one.
\<close>

definition models_returned ::
  "'m backend \<Rightarrow> ('m \<Rightarrow> 'k) \<Rightarrow> 'm formula \<Rightarrow> bool \<Rightarrow> nat \<Rightarrow> 'm list" where
  "models_returned backend canonical_projection formula extract_all_parses maxCount =
     (if extract_all_parses then solveAll backend canonical_projection formula maxCount
      else (case solveOne backend formula of
              SAT model \<Rightarrow> [model]
            | UNSAT \<Rightarrow> []
            | TIMEOUT \<Rightarrow> []))"

text \<open>
  An instance for closed examples. A model assigns the topology (the two children of
  each merge slot), the lexical choice of each leaf slot, and a padding value of the
  unused slots; the canonical projection keeps the first two. The backend answers the
  first candidate of a list that satisfies the formula.
\<close>

record assignment =
  topology :: "(nat \<times> nat) list"
  lexical_choices :: "string list"
  padding :: nat

definition canonical_projection :: "assignment \<Rightarrow> (nat \<times> nat) list \<times> string list" where
  "canonical_projection a = (topology a, lexical_choices a)"

definition first_satisfying :: "'m list \<Rightarrow> 'm backend" where
  "first_satisfying candidates formula =
     (case find (\<lambda>model. satisfies model formula) candidates of
        Some model \<Rightarrow> SAT model
      | None \<Rightarrow> UNSAT)"

definition example_candidates :: "assignment list" where
  "example_candidates =
     [\<lparr>topology = [(0, 1)], lexical_choices = [''fears'', ''John''], padding = 0\<rparr>,
      \<lparr>topology = [(0, 1)], lexical_choices = [''fears'', ''John''], padding = 1\<rparr>,
      \<lparr>topology = [(1, 0)], lexical_choices = [''fears'', ''John''], padding = 0\<rparr>,
      \<lparr>topology = [(0, 1)], lexical_choices = [''knows'', ''her''], padding = 0\<rparr>]"

section \<open>Properties of the notebook\<close>

lemma startswith_iff: "startswith s p \<longleftrightarrow> (\<exists>r. s = p @ r)"
  by (induction s p rule: startswith.induct) auto

lemma str_contains_iff: "str_contains s p \<longleftrightarrow> (\<exists>a b. s = a @ p @ b)"
proof (induction s)
  case Nil
  then show ?case by auto
next
  case (Cons c s)
  show ?case
  proof
    assume "str_contains (c # s) p"
    then consider "startswith (c # s) p" | "str_contains s p" by auto
    then show "\<exists>a b. c # s = a @ p @ b"
    proof cases
      case 1
      then obtain r where "c # s = p @ r" by (auto simp: startswith_iff)
      then have "c # s = [] @ p @ r" by simp
      then show ?thesis by blast
    next
      case 2
      then obtain a b where "s = a @ p @ b" using Cons.IH by blast
      then have "c # s = (c # a) @ p @ b" by simp
      then show ?thesis by blast
    qed
  next
    assume "\<exists>a b. c # s = a @ p @ b"
    then obtain a b where ab: "c # s = a @ p @ b" by blast
    show "str_contains (c # s) p"
    proof (cases a)
      case Nil
      with ab have "startswith (c # s) p" by (auto simp: startswith_iff)
      then show ?thesis by simp
    next
      case (Cons x a')
      with ab have "s = a' @ p @ b" by simp
      then have "str_contains s p" using Cons.IH by blast
      then show ?thesis by simp
    qed
  qed
qed

lemma str_contains_single_letter:
  "str_contains ''ABCDEFGH'' [c] \<longleftrightarrow> c \<in> set ''ABCDEFGH''"
  by auto

text \<open>
  The call stops at an assertion, with nothing printed, opened or run, exactly when the
  index is outside \<open>0 \<le> example_idx < 8\<close> or the code is not a substring of
  \<^verbatim>\<open>'ABCDEFGH'\<close>.
\<close>

lemma process_example_assertions:
  "process_example P files example_idx example_code ap e m h = ([], Inl AssertionError)
   \<longleftrightarrow> \<not> (0 \<le> example_idx \<and> example_idx < 8) \<or> \<not> str_contains ''ABCDEFGH'' example_code"
  by (auto simp: process_example_def Let_def split: sum.splits prod.splits)

text \<open>With an index in range and one of the letters A to H, both assertions pass.\<close>

lemma process_example_proceeds:
  assumes "0 \<le> example_idx" and "example_idx < 8" and "c \<in> set ''ABCDEFGH''"
  shows "\<exists>evs. fst (process_example P files example_idx [c] ap e m h)
           = Printed (banner [c]) # FileOpened (lexicon_path [c]) # evs"
proof -
  have "str_contains ''ABCDEFGH'' [c]"
    using assms(3) by (simp only: str_contains_single_letter)
  with assms(1,2) show ?thesis
    by (auto simp: process_example_def Let_def split: sum.splits prod.splits)
qed

text \<open>
  The seventh example of the notebook, \<^verbatim>\<open>process_example(6, 'G', max_num_empty_lexical_items=6,
  max_num_movements=6, max_num_head_movements=4)\<close>: the parser is run on the seventh pair
  of the corpus with both constraint toggles on, one parse asked for, and the bounds
  6, 6, 4.
\<close>

lemma process_example_G:
  "process_example example_package example_files 6 ''G'' False 6 6 4 =
     ([Printed (banner ''G''),
       FileOpened ''experiment-data/lexicon-G.json'',
       FileOpened ''experiment-data/corpus-of-interface-conditions.json'',
       ConfigurationsConstructed (JObj [])
         (JObj [(''input_sequence'',
                 JArr [JStr ''I1'', JStr ''I2'', JStr ''I3'', JStr ''I4'', JStr ''I5'',
                       JStr ''I6'', JStr ''I7'', JStr ''I8''])])
         (JArr [JStr ''I7'']) [],
       ExperimentInitialised [(''evaluate_intermediate_steps'', JBool False)]
         (other_args 6 6 4),
       ExperimentRun True True False],
      Inr PyNone)"
  by (simp add: process_example_def run_parser_def example_package_def example_files_def
      load_json_def lexicon_path_def corpus_path_def subscript_key_def slice1_def)

text \<open>
  The last two cells of the notebook call \<^verbatim>\<open>run_parser\<close> with one of the two constraint
  toggles off, all parses asked for and the default bounds 2, 4, 2. \<^verbatim>\<open>run_parser\<close> checks
  neither toggle: each reaches \<^verbatim>\<open>pe.run\<close> as given, also when both are off.
\<close>

lemma run_parser_PF_only:
  "run_parser example_package (JObj []) (JObj []) (JArr [JStr ''I1'']) []
     False True True 2 4 2 =
     ([ConfigurationsConstructed (JObj []) (JObj []) (JArr [JStr ''I1'']) [],
       ExperimentInitialised [(''evaluate_intermediate_steps'', JBool False)]
         (other_args 2 4 2),
       ExperimentRun False True True],
      Inr PyNone)"
  by (simp add: run_parser_def example_package_def)

lemma run_parser_LF_only:
  "run_parser example_package (JObj []) (JObj []) (JArr [JStr ''I1'']) []
     True False True 2 4 2 =
     ([ConfigurationsConstructed (JObj []) (JObj []) (JArr [JStr ''I1'']) [],
       ExperimentInitialised [(''evaluate_intermediate_steps'', JBool False)]
         (other_args 2 4 2),
       ExperimentRun True False True],
      Inr PyNone)"
  by (simp add: run_parser_def example_package_def)

lemma run_parser_toggles_unchecked:
  fixes P :: "('pe, 'r) package"
  assumes "construct_parser_experiment_configurations P lexicon params corpus extras
             = Inr (c # cs)"
    and "ParserExperiment P (AList.update ''evaluate_intermediate_steps'' (JBool False) c)
           (other_args e m h) = Inr pe"
  shows "snd (run_parser P lexicon params corpus extras False False ap e m h)
           = (case run P pe False False ap of Inl err \<Rightarrow> Inl err | Inr r \<Rightarrow> Inr PyNone)"
  using assms by (simp add: run_parser_def split: sum.splits)

text \<open>
  C10. The claim: a call of \<^verbatim>\<open>process_example\<close> whose code is not one of the characters
  A to H fails with AssertionError before any file is read. The second assertion is a
  substring test, so the two-letter code \<^verbatim>\<open>'AB'\<close> and the empty code pass it: the call
  prints the banner and opens a lexicon file named after the code, and what it raises is
  the FileNotFoundError of that file.
\<close>

theorem process_example_substring_code:
  "process_example example_package example_files 0 ''AB'' False 2 4 2 =
     ([Printed (banner ''AB''), FileOpened ''experiment-data/lexicon-AB.json''],
      Inl (FileNotFoundError ''experiment-data/lexicon-AB.json''))
   \<and> process_example example_package example_files 0 [] False 2 4 2 =
     ([Printed (banner []), FileOpened ''experiment-data/lexicon-.json''],
      Inl (FileNotFoundError ''experiment-data/lexicon-.json''))"
  by (simp add: process_example_def example_files_def load_json_def lexicon_path_def
      corpus_path_def)

text \<open>
  C5, as stated: the parse operation takes the lexicon, the interface condition, the
  extra lexical items, three toggles and three bounds, and returns derivation records or
  a typed failure. \<^verbatim>\<open>run_parser\<close> does not: the package's \<^verbatim>\<open>run\<close> returns a derivation
  and the call evaluates to \<^verbatim>\<open>None\<close>; and with every input the claim lists unchanged, the
  outcome changes with \<^verbatim>\<open>experiment_params\<close>, an input the claim does not list.
\<close>

theorem run_parser_returns_no_derivation:
  "run example_package () True True False = Inr [''derivation'']
   \<and> snd (run_parser example_package (JObj []) (JObj []) (JArr [JStr ''I1'']) []
            True True False 2 4 2) = Inr PyNone
   \<and> snd (run_parser example_package (JObj []) JNull (JArr [JStr ''I1'']) []
            True True False 2 4 2) = Inl IndexError"
  by (simp add: run_parser_def example_package_def)

text \<open>
  C5, amended: \<^verbatim>\<open>run_parser\<close> takes the lexicon, the experiment parameters, the evaluation
  corpus, the extra lexical items, the three toggles and the three bounds. No invocation
  returns what \<^verbatim>\<open>run\<close> returned: a call evaluates to \<^verbatim>\<open>None\<close> exactly when the package
  constructs at least one configuration, builds the experiment from the first one and
  runs it without raising. Otherwise it raises what the package raised, or IndexError
  when no configuration was constructed. The experiment is built from the caller's
  bounds with \<^verbatim>\<open>evaluate_intermediate_steps\<close> switched off, and is run with the caller's
  three toggles.
\<close>

theorem run_parser_outcome:
  fixes P :: "('pe, 'r) package"
  shows
    "(\<forall>v. snd (run_parser P lexicon params corpus extras lf pf ap e m h) \<noteq> Inr (PyResult v))
     \<and> (snd (run_parser P lexicon params corpus extras lf pf ap e m h) = Inr PyNone \<longleftrightarrow>
          (\<exists>c cs pe r.
             construct_parser_experiment_configurations P lexicon params corpus extras
               = Inr (c # cs)
             \<and> ParserExperiment P
                 (AList.update ''evaluate_intermediate_steps'' (JBool False) c)
                 (other_args e m h) = Inr pe
             \<and> run P pe lf pf ap = Inr r))
     \<and> (\<forall>err. snd (run_parser P lexicon params corpus extras lf pf ap e m h) = Inl err \<longrightarrow>
          construct_parser_experiment_configurations P lexicon params corpus extras = Inl err
          \<or> (construct_parser_experiment_configurations P lexicon params corpus extras = Inr []
              \<and> err = IndexError)
          \<or> (\<exists>c cs.
                construct_parser_experiment_configurations P lexicon params corpus extras
                  = Inr (c # cs)
                \<and> (ParserExperiment P
                      (AList.update ''evaluate_intermediate_steps'' (JBool False) c)
                      (other_args e m h) = Inl err
                    \<or> (\<exists>pe. ParserExperiment P
                               (AList.update ''evaluate_intermediate_steps'' (JBool False) c)
                               (other_args e m h) = Inr pe
                             \<and> run P pe lf pf ap = Inl err))))
     \<and> (\<forall>a b c. ExperimentRun a b c
            \<in> set (fst (run_parser P lexicon params corpus extras lf pf ap e m h))
          \<longrightarrow> a = lf \<and> b = pf \<and> c = ap)
     \<and> (\<forall>cfg args. ExperimentInitialised cfg args
            \<in> set (fst (run_parser P lexicon params corpus extras lf pf ap e m h))
          \<longrightarrow> args = other_args e m h
              \<and> map_of cfg ''evaluate_intermediate_steps'' = Some (JBool False))"
  by (auto simp: run_parser_def Let_def update_conv' split: sum.splits list.splits)

theorem run_parser_outcome_witness:
  "run_parser example_package (JObj []) (JObj []) (JArr [JStr ''I1'']) []
     True False True 6 6 4 =
     ([ConfigurationsConstructed (JObj []) (JObj []) (JArr [JStr ''I1'']) [],
       ExperimentInitialised [(''evaluate_intermediate_steps'', JBool False)]
         (other_args 6 6 4),
       ExperimentRun True False True],
      Inr PyNone)
   \<and> snd (run_parser example_package (JObj []) (JObj []) (JArr [JStr ''I1'']) []
            True False True 6 6 4) \<noteq> Inr (PyResult [''derivation''])"
  using run_parser_outcome [of example_package "JObj []" "JObj []" "JArr [JStr ''I1'']" "[]"
      True False True 6 6 4]
  by (simp add: run_parser_def example_package_def)

section \<open>Properties of the solver driver\<close>

lemma first_satisfying_sound: "sound (first_satisfying candidates)"
  by (auto simp: sound_def first_satisfying_def find_Some_iff split: option.splits)

text \<open>
  Every model of the enumeration satisfies the formula the enumeration started from, and
  no two of them have the same canonical projection: a later model satisfies the
  blocking clause of each earlier one.
\<close>

lemma solveAll_satisfy_distinct:
  assumes "sound backend"
  shows "(\<forall>m \<in> set (solveAll backend proj formula n). satisfies m formula)
       \<and> distinct (map proj (solveAll backend proj formula n))"
proof (induction n arbitrary: formula)
  case 0
  then show ?case by simp
next
  case (Suc n)
  show ?case
  proof (cases "backend formula")
    case (SAT m)
    let ?f = "formula @ [blocking_clause proj m]"
    let ?rest = "solveAll backend proj ?f n"
    have m: "satisfies m formula"
      using assms SAT by (simp add: sound_def)
    have rest: "\<forall>x \<in> set ?rest. satisfies x ?f" and dist: "distinct (map proj ?rest)"
      using Suc.IH [of ?f] by simp_all
    have r1: "\<forall>x \<in> set ?rest. satisfies x formula"
      using rest by (simp add: satisfies_def)
    have r2: "\<forall>x \<in> set ?rest. proj x \<noteq> proj m"
      using rest by (simp add: satisfies_def blocking_clause_def)
    have "proj m \<notin> set (map proj ?rest)"
      using r2 by auto
    with m r1 dist SAT show ?thesis
      by (simp add: solveOne_def)
  qed (simp_all add: solveOne_def)
qed

lemma solveAll_first:
  "take 1 (solveAll backend proj formula (Suc n)) =
     (case solveOne backend formula of SAT model \<Rightarrow> [model] | UNSAT \<Rightarrow> [] | TIMEOUT \<Rightarrow> [])"
  by (simp split: solve_result.splits)

lemma solveAll_length: "length (solveAll backend proj formula n) \<le> n"
  by (induction n arbitrary: formula) (auto split: solve_result.splits)

text \<open>
  Blocking the full assignment instead (the identity as projection) yields the first
  derivation twice, once for each padding value.
\<close>

lemma example_full_assignment_blocking:
  "map canonical_projection
     (solveAll (first_satisfying example_candidates) (\<lambda>a. a) [] 2)
   = [([(0, 1)], [''fears'', ''John'']), ([(0, 1)], [''fears'', ''John''])]"
  by (simp add: numeral_eq_Suc solveOne_def first_satisfying_def example_candidates_def
      satisfies_def blocking_clause_def canonical_projection_def)

lemma example_enumeration:
  "solveAll (first_satisfying example_candidates) canonical_projection [] 5 =
     [\<lparr>topology = [(0, 1)], lexical_choices = [''fears'', ''John''], padding = 0\<rparr>,
      \<lparr>topology = [(1, 0)], lexical_choices = [''fears'', ''John''], padding = 0\<rparr>,
      \<lparr>topology = [(0, 1)], lexical_choices = [''knows'', ''her''], padding = 0\<rparr>]"
  by (simp add: numeral_eq_Suc solveOne_def first_satisfying_def example_candidates_def
      satisfies_def blocking_clause_def canonical_projection_def)

text \<open>
  C7. With \<^verbatim>\<open>extract_all_parses\<close>, the models the driver returns are those of the
  blocking-clause enumeration, at most \<open>maxCount\<close> of them, and no two of them have the
  same canonical projection; each satisfies the formula. Without it, the driver returns
  the first model of the enumeration and no other. The backend is taken to be sound.
\<close>

theorem solveAll_pairwise_distinct:
  assumes "sound backend"
  shows "models_returned backend proj formula True maxCount
           = solveAll backend proj formula maxCount
       \<and> length (models_returned backend proj formula True maxCount) \<le> maxCount
       \<and> distinct (map proj (models_returned backend proj formula True maxCount))
       \<and> list_all (\<lambda>model. satisfies model formula)
           (models_returned backend proj formula True maxCount)
       \<and> models_returned backend proj formula False maxCount
           = take 1 (solveAll backend proj formula (Suc maxCount))"
proof -
  have "models_returned backend proj formula False maxCount
          = take 1 (solveAll backend proj formula (Suc maxCount))"
    unfolding solveAll_first by (simp add: models_returned_def)
  then show ?thesis
    using solveAll_satisfy_distinct [OF assms, of proj formula maxCount]
      solveAll_length [of backend proj formula maxCount]
    by (simp add: models_returned_def list_all_iff del: solveAll.simps)
qed

theorem solveAll_pairwise_distinct_witness:
  "sound (first_satisfying example_candidates)
   \<and> map canonical_projection
       (models_returned (first_satisfying example_candidates) canonical_projection [] True 5)
     = [([(0, 1)], [''fears'', ''John'']), ([(1, 0)], [''fears'', ''John'']),
        ([(0, 1)], [''knows'', ''her''])]
   \<and> distinct (map canonical_projection
       (models_returned (first_satisfying example_candidates) canonical_projection [] True 5))
   \<and> models_returned (first_satisfying example_candidates) canonical_projection [] False 5
     = [\<lparr>topology = [(0, 1)], lexical_choices = [''fears'', ''John''], padding = 0\<rparr>]"
proof -
  have s: "sound (first_satisfying example_candidates)"
    by (rule first_satisfying_sound)
  have e: "models_returned (first_satisfying example_candidates) canonical_projection [] True 5
      = solveAll (first_satisfying example_candidates) canonical_projection [] 5"
    by (simp add: models_returned_def)
  have f: "models_returned (first_satisfying example_candidates) canonical_projection [] False 5
      = [\<lparr>topology = [(0, 1)], lexical_choices = [''fears'', ''John''], padding = 0\<rparr>]"
    by (simp add: models_returned_def solveOne_def first_satisfying_def
        example_candidates_def satisfies_def)
  show ?thesis
    using solveAll_pairwise_distinct [OF s, of canonical_projection "[]" 5] s f
    by (simp add: e example_enumeration canonical_projection_def)
qed

end
